theory Spec2Isabelle
  imports Complex_Main
begin

section \<open>JavaScript values\<close>

text \<open>
  A JavaScript string is a sequence of UTF-16 code units; a code unit is modelled as a
  natural number. \<open>js\<close> writes an ASCII literal as such a sequence.
\<close>

type_synonym js_string = "nat list"

definition js :: "string \<Rightarrow> js_string" where
  "js s = map of_char s"

text \<open>
  A slot that may hold \<open>undefined\<close>, \<open>null\<close> or a value. The strict comparison
  \<open>===\<close> of two such slots holding primitives (numbers, strings of an enumeration) is
  HOL equality on this type: \<open>undefined\<close> and \<open>null\<close> are different.
\<close>

datatype 'a js_opt = Undefined | Null | Val 'a

text \<open>
  An object or array held in a slot is its address together with its contents; \<open>===\<close>
  on objects compares the addresses only.
\<close>

type_synonym 'a js_obj = "(nat \<times> 'a) js_opt"

fun same_ref :: "'a js_obj \<Rightarrow> 'a js_obj \<Rightarrow> bool" where
  "same_ref Undefined Undefined = True"
| "same_ref Null Null = True"
| "same_ref (Val a) (Val b) = (fst a = fst b)"
| "same_ref _ _ = False"

text \<open>What the code can throw: the errors of the JavaScript runtime and of the libraries.\<close>

datatype js_error = TypeError | SyntaxError | OtherError

section \<open>The table component: data model\<close>

datatype SortDirectionType = ASC | DESC

text \<open>
  A field (column) of a data frame: its name and its configuration, opaque here. The
  values of the column are read by the data cells only and are left out.
\<close>

record 'c Field =
  name :: js_string
  config :: 'c

text \<open>
  A data frame: \<open>df_fields\<close> is the list \<open>fields\<close> of the source (possibly
  missing) and \<open>row_count\<close> its \<open>length\<close>, the number of rows.
\<close>

record 'c DataFrame =
  df_fields :: "'c Field list option"
  row_count :: nat

text \<open>
  A style rule. The source calls the second field \<open>alias\<close>; it is optional. The
  other fields of a style are read by the cell builders only.
\<close>

record ColumnStyle =
  pattern :: js_string
  style_alias :: "js_string option"

record ('c, 't) Props =
  data :: "'c DataFrame js_obj"
  minColumnWidth :: real
  showHeader :: bool
  fixedHeader :: bool
  fixedColumns :: int
  styles :: "ColumnStyle list js_obj"
  width :: real
  height :: real
  theme :: 't

text \<open>The component state; \<open>state_data\<close> is the field \<open>data\<close> of the source's State.\<close>

record 'c State =
  sortBy :: "nat js_opt"
  sortDirection :: "SortDirectionType js_opt"
  state_data :: "'c DataFrame js_obj"

record DataIndex =
  column :: nat
  row :: int

section \<open>Coordinate mapping\<close>

definition getCellRef :: "('c, 't) Props \<Rightarrow> int \<Rightarrow> nat \<Rightarrow> DataIndex" where
  "getCellRef p rowIndex columnIndex =
     (let rowOffset = (if showHeader p then - 1 else 0)
      in \<lparr>column = columnIndex, row = rowIndex + rowOffset\<rparr>)"

section \<open>Sorting\<close>

definition doSort :: "nat \<Rightarrow> 'c State \<Rightarrow> 'c State" where
  "doSort columnIndex s =
     (if sortBy s \<noteq> Val columnIndex
      then s\<lparr>sortBy := Val columnIndex, sortDirection := Val DESC\<rparr>
      else if sortDirection s = Val DESC
      then s\<lparr>sortBy := sortBy s, sortDirection := Val ASC\<rparr>
      else s\<lparr>sortBy := Null, sortDirection := sortDirection s\<rparr>)"

definition onCellClick :: "('c, 't) Props \<Rightarrow> int \<Rightarrow> nat \<Rightarrow> 'c State \<Rightarrow> 'c State" where
  "onCellClick p rowIndex columnIndex s =
     (let r = getCellRef p rowIndex columnIndex
      in if row r < 0 then doSort (column r) s else s)"

text \<open>
  How a column is shown and ordered in a given state. The header shows the sort
  indicator of a column when \<open>sortBy === column\<close>, and the data is ordered in reverse
  when \<open>sortDirection === 'DESC'\<close>, in ascending order otherwise.
\<close>

datatype sort_status = Unsorted | Descending | Ascending

definition column_status :: "'c State \<Rightarrow> nat \<Rightarrow> sort_status" where
  "column_status s c =
     (if sortBy s = Val c
      then (if sortDirection s = Val DESC then Descending else Ascending)
      else Unsorted)"

section \<open>External collaborators\<close>

text \<open>
  The regular expressions come from outside the repository: \<open>stringToJsRegex\<close> of the
  data library (it throws on a text that is no regular expression), and the methods
  \<open>match\<close> and \<open>replace\<close> of the runtime's strings. They are parameters of the model:
  \<open>str_match E title regex\<close> says whether \<open>title.match(regex)\<close> is truthy, and
  \<open>str_replace E title regex a\<close> is \<open>title.replace(regex, a)\<close>.
\<close>

record 'rx RegexApi =
  stringToJsRegex :: "js_string \<Rightarrow> js_error + 'rx"
  str_match :: "js_string \<Rightarrow> 'rx \<Rightarrow> bool"
  str_replace :: "js_string \<Rightarrow> 'rx \<Rightarrow> js_string \<Rightarrow> js_string"

text \<open>
  \<open>sortDataFrame(data, sortIndex, reverse)\<close> of the data library is a parameter as well,
  of this type; it may throw.
\<close>

type_synonym 'c sorter =
  "'c DataFrame js_obj \<Rightarrow> nat js_opt \<Rightarrow> bool \<Rightarrow> js_error + 'c DataFrame js_obj"

text \<open>
  The cell builder of a column is what \<open>getCellBuilder(col.config, style, theme)\<close>
  returns; the function is not part of the component, so the builder is kept as the call.
\<close>

datatype ('c, 't) TableCellBuilder = GetCellBuilder 'c "ColumnStyle option" 't

text \<open>\<open>column_width\<close> is the field \<open>width\<close> of the source's ColumnRenderInfo.\<close>

record ('c, 't) ColumnRenderInfo =
  header :: js_string
  column_width :: real
  builder :: "('c, 't) TableCellBuilder"

section \<open>Column layout\<close>

text \<open>
  The guard \<open>!data || !data.fields || !data.fields.length\<close>, and the fields and the
  row count of a frame that passed it.
\<close>

definition missing_fields :: "'c DataFrame js_obj \<Rightarrow> bool" where
  "missing_fields d =
     (case d of
        Val (_, f) \<Rightarrow> (case df_fields f of Some fs \<Rightarrow> fs = [] | None \<Rightarrow> True)
      | _ \<Rightarrow> True)"

definition fields_of :: "'c DataFrame js_obj \<Rightarrow> 'c Field list" where
  "fields_of d =
     (case d of
        Val (_, f) \<Rightarrow> (case df_fields f of Some fs \<Rightarrow> fs | None \<Rightarrow> [])
      | _ \<Rightarrow> [])"

definition rows_of :: "'c DataFrame js_obj \<Rightarrow> nat" where
  "rows_of d = (case d of Val (_, f) \<Rightarrow> row_count f | _ \<Rightarrow> 0)"

text \<open>
  The loop of \<open>initColumns\<close> over the styles: the title and the style of a column. A
  pattern that does not compile throws out of the loop; the first rule that matches
  ends it.
\<close>

fun find_style ::
  "'rx RegexApi \<Rightarrow> js_string \<Rightarrow> ColumnStyle list \<Rightarrow> js_error + (js_string \<times> ColumnStyle option)"
where
  "find_style E title [] = Inr (title, None)"
| "find_style E title (s # ss) =
     (case stringToJsRegex E (pattern s) of
        Inl e \<Rightarrow> Inl e
      | Inr regex \<Rightarrow>
          if str_match E title regex
          then Inr (case style_alias s of
                      None \<Rightarrow> title
                    | Some a \<Rightarrow> if a = [] then title else str_replace E title regex a,
                    Some s)
          else find_style E title ss)"

text \<open>\<open>Array.map\<close> with a callback that may throw: the first exception ends the map.\<close>

fun map_throw :: "('a \<Rightarrow> 'e + 'b) \<Rightarrow> 'a list \<Rightarrow> 'e + 'b list" where
  "map_throw f [] = Inr []"
| "map_throw f (x # xs) =
     (case f x of
        Inl e \<Rightarrow> Inl e
      | Inr y \<Rightarrow> (case map_throw f xs of Inl e \<Rightarrow> Inl e | Inr ys \<Rightarrow> Inr (y # ys)))"

definition initColumn ::
  "'rx RegexApi \<Rightarrow> 't \<Rightarrow> real \<Rightarrow> ColumnStyle list \<Rightarrow> 'c Field
   \<Rightarrow> js_error + ('c, 't) ColumnRenderInfo"
where
  "initColumn E th columnWidth sts col =
     (case find_style E (name col) sts of
        Inl e \<Rightarrow> Inl e
      | Inr (title, style) \<Rightarrow>
          Inr \<lparr>header = title, column_width = columnWidth,
               builder = GetCellBuilder (config col) style th\<rparr>)"

definition initColumns ::
  "'rx RegexApi \<Rightarrow> ('c, 't) Props \<Rightarrow> js_error + ('c, 't) ColumnRenderInfo list"
where
  "initColumns E p =
     (if missing_fields (data p) then Inr []
      else (case styles p of
              Val (_, sts) \<Rightarrow>
                (let columnWidth =
                       max (width p / real (length (fields_of (data p)))) (minColumnWidth p)
                 in map_throw (initColumn E (theme p) columnWidth sts) (fields_of (data p)))
            | _ \<Rightarrow> Inr []))"

section \<open>The component instance\<close>

text \<open>
  The measurement cache maps a grid position (row, column) to the measured height and
  width of its cell; \<open>clearAll\<close> empties it.
\<close>

type_synonym CellMeasurerCache = "nat \<times> nat \<rightharpoonup> real \<times> real"

record ('c, 't) Table =
  props :: "('c, 't) Props"
  state :: "'c State"
  renderer :: "('c, 't) ColumnRenderInfo list"
  measurer :: CellMeasurerCache
  scrollToTop :: bool

definition constructor :: "'rx RegexApi \<Rightarrow> ('c, 't) Props \<Rightarrow> js_error + ('c, 't) Table" where
  "constructor E p =
     (case initColumns E p of
        Inl e \<Rightarrow> Inl e
      | Inr r \<Rightarrow>
          Inr \<lparr>props = p,
               state = \<lparr>sortBy = Undefined, sortDirection = Undefined, state_data = data p\<rparr>,
               renderer = r, measurer = Map.empty, scrollToTop = False\<rparr>)"

subsection \<open>componentDidUpdate\<close>

definition dataChanged :: "('c, 't) Props \<Rightarrow> ('c, 't) Table \<Rightarrow> bool" where
  "dataChanged prevProps t = (\<not> same_ref (data (props t)) (data prevProps))"

definition configsChanged :: "('c, 't) Props \<Rightarrow> ('c, 't) Table \<Rightarrow> bool" where
  "configsChanged prevProps t =
     (showHeader (props t) \<noteq> showHeader prevProps
      \<or> fixedColumns (props t) \<noteq> fixedColumns prevProps
      \<or> fixedHeader (props t) \<noteq> fixedHeader prevProps)"

definition stylesChanged :: "('c, 't) Props \<Rightarrow> ('c, 't) Table \<Rightarrow> bool" where
  "stylesChanged prevProps t = (\<not> same_ref (styles (props t)) (styles prevProps))"

definition sortChanged :: "'c State \<Rightarrow> ('c, 't) Table \<Rightarrow> bool" where
  "sortChanged prevState t =
     (sortBy (state t) \<noteq> sortBy prevState \<or> sortDirection (state t) \<noteq> sortDirection prevState)"

text \<open>
  The three steps of \<open>componentDidUpdate\<close>, in the order of the source. An exception
  leaves the instance as the steps before it made it: the result \<open>Inl (e, t)\<close> is the
  exception with that instance.
\<close>

definition resetSizeCache :: "('c, 't) Props \<Rightarrow> ('c, 't) Table \<Rightarrow> ('c, 't) Table" where
  "resetSizeCache prevProps t =
     (if dataChanged prevProps t \<or> configsChanged prevProps t
      then t\<lparr>measurer := Map.empty\<rparr> else t)"

definition updateRenderer ::
  "'rx RegexApi \<Rightarrow> ('c, 't) Props \<Rightarrow> ('c, 't) Table
   \<Rightarrow> (js_error \<times> ('c, 't) Table) + ('c, 't) Table"
where
  "updateRenderer E prevProps t =
     (if dataChanged prevProps t \<or> stylesChanged prevProps t
      then (case initColumns E (props t) of
              Inl e \<Rightarrow> Inl (e, t)
            | Inr r \<Rightarrow> Inr (t\<lparr>renderer := r\<rparr>))
      else Inr t)"

definition updateData ::
  "'c sorter \<Rightarrow> ('c, 't) Props \<Rightarrow> 'c State \<Rightarrow> ('c, 't) Table
   \<Rightarrow> (js_error \<times> ('c, 't) Table) + ('c, 't) Table"
where
  "updateData sortDataFrame prevProps prevState t =
     (if dataChanged prevProps t \<or> sortChanged prevState t
      then (let t' = t\<lparr>scrollToTop := True\<rparr>
            in case sortDataFrame (data (props t')) (sortBy (state t'))
                      (sortDirection (state t') = Val DESC) of
                 Inl e \<Rightarrow> Inl (e, t')
               | Inr d \<Rightarrow> Inr (t'\<lparr>state := (state t')\<lparr>state_data := d\<rparr>\<rparr>))
      else Inr t)"

definition componentDidUpdate ::
  "'rx RegexApi \<Rightarrow> 'c sorter \<Rightarrow> ('c, 't) Props \<Rightarrow> 'c State \<Rightarrow> ('c, 't) Table
   \<Rightarrow> (js_error \<times> ('c, 't) Table) + ('c, 't) Table"
where
  "componentDidUpdate E sortDataFrame prevProps prevState t =
     (case updateRenderer E prevProps (resetSizeCache prevProps t) of
        Inl x \<Rightarrow> Inl x
      | Inr t' \<Rightarrow> updateData sortDataFrame prevProps prevState t')"

text \<open>The instance a call leaves behind, whether it returned or threw.\<close>

definition instance_after :: "(js_error \<times> ('c, 't) Table) + ('c, 't) Table \<Rightarrow> ('c, 't) Table" where
  "instance_after r = (case r of Inl (e, t) \<Rightarrow> t | Inr t \<Rightarrow> t)"

subsection \<open>Cells and rendering\<close>

text \<open>
  A header cell: its text, and the sort indicator with the direction it is given, if
  the cell has one.
\<close>

record HeaderCell =
  cell_text :: js_string
  sort_indicator :: "SortDirectionType js_opt option"

definition headerBuilder :: "('c, 't) Table \<Rightarrow> int \<Rightarrow> nat \<Rightarrow> js_error + HeaderCell" where
  "headerBuilder t rowIndex columnIndex =
     (let c = column (getCellRef (props t) rowIndex columnIndex)
      in case state_data (state t) of
           Val (_, d) \<Rightarrow>
             (case df_fields d of
                Some fs \<Rightarrow>
                  if c < length fs
                  then Inr \<lparr>cell_text = name (fs ! c),
                            sort_indicator =
                              (if sortBy (state t) = Val c
                               then Some (sortDirection (state t)) else None)\<rparr>
                  else Inl TypeError
              | None \<Rightarrow> Inl TypeError)
         | _ \<Rightarrow> Inl TypeError)"


text \<open>
  What \<open>render\<close> hands to the grid: the refresh keys (the state, \<open>d1\<close>, \<open>s0\<close>) and the
  layout. The callbacks and the class names are left out.
\<close>

record ('c, 't) MultiGridProps =
  refresh_state :: "'c State"
  d1 :: "'c DataFrame js_obj"
  s0 :: "ColumnStyle list js_obj"
  scrollToRow :: int
  columnCount :: nat
  scrollToColumn :: int
  rowCount :: nat
  overscanColumnCount :: nat
  overscanRowCount :: nat
  grid_width :: real
  grid_height :: real
  fixedColumnCount :: int
  fixedRowCount :: nat

datatype ('c, 't) Rendered = MissingFields | MultiGrid "('c, 't) MultiGridProps"

definition render :: "('c, 't) Table \<Rightarrow> ('c, 't) Rendered \<times> ('c, 't) Table" where
  "render t =
     (if missing_fields (state_data (state t)) then (MissingFields, t)
      else
        (let p = props t;
             d = state_data (state t);
             columns = length (fields_of d);
             rows = rows_of d + (if showHeader p then 1 else 0);
             fixedColumnCount' = min (fixedColumns p) (int columns);
             fixedRowCount' = (if showHeader p \<and> fixedHeader p then 1 else 0);
             scrollToRow' = (if scrollToTop t then 1 else - 1);
             t' = (if scrollToTop t then t\<lparr>scrollToTop := False\<rparr> else t)
         in (MultiGrid
               \<lparr>refresh_state = state t, d1 = data p, s0 = styles p,
                scrollToRow = scrollToRow', columnCount = columns, scrollToColumn = - 1,
                rowCount = rows, overscanColumnCount = 8, overscanRowCount = 8,
                grid_width = width p, grid_height = height p,
                fixedColumnCount = fixedColumnCount', fixedRowCount = fixedRowCount'\<rparr>,
             t')))"

text \<open>The row that a rendering asks the grid to scroll to, if it renders the grid.\<close>

definition scroll_request :: "('c, 't) Rendered \<Rightarrow> int option" where
  "scroll_request r = (case r of MissingFields \<Rightarrow> None | MultiGrid g \<Rightarrow> Some (scrollToRow g))"

section \<open>The thresholds form\<close>

text \<open>
  \<open>String.prototype.split\<close> with a one-unit separator: \<open>cur\<close> is the segment being
  read. The empty string splits into one empty segment.
\<close>

fun split_acc :: "nat \<Rightarrow> js_string \<Rightarrow> js_string \<Rightarrow> js_string list" where
  "split_acc sep cur [] = [cur]"
| "split_acc sep cur (c # cs) =
     (if c = sep then cur # split_acc sep [] cs else split_acc sep (cur @ [c]) cs)"

definition split_on :: "nat \<Rightarrow> js_string \<Rightarrow> js_string list" where
  "split_on sep s = split_acc sep [] s"

text \<open>
  Segments written one after the other with the separator between them: what a list of
  segments is the splitting of.
\<close>

fun join_on :: "nat \<Rightarrow> js_string list \<Rightarrow> js_string" where
  "join_on sep [] = []"
| "join_on sep [x] = x"
| "join_on sep (x # y # r) = x @ sep # join_on sep (y # r)"

text \<open>
  The white space and line terminators of ECMAScript, which \<open>trim\<close> removes at both
  ends: TAB, LF, VT, FF, CR, SP, NBSP, U+1680, U+2000 to U+200A, U+2028, U+2029, U+202F,
  U+205F, U+3000 and U+FEFF.
\<close>

definition is_white :: "nat \<Rightarrow> bool" where
  "is_white c =
     (c = 9 \<or> c = 10 \<or> c = 11 \<or> c = 12 \<or> c = 13 \<or> c = 32 \<or> c = 160 \<or> c = 5760
      \<or> (8192 \<le> c \<and> c \<le> 8202) \<or> c = 8232 \<or> c = 8233 \<or> c = 8239 \<or> c = 8287
      \<or> c = 12288 \<or> c = 65279)"

definition trim :: "js_string \<Rightarrow> js_string" where
  "trim s = rev (dropWhile is_white (rev (dropWhile is_white s)))"

definition is_digit :: "nat \<Rightarrow> bool" where
  "is_digit c = (48 \<le> c \<and> c \<le> 57)"

definition digits_value :: "js_string \<Rightarrow> int" where
  "digits_value ds = foldl (\<lambda>a c. 10 * a + int (c - 48)) 0 ds"

text \<open>
  The built-in \<open>parseInt(s, 10)\<close>: leading white space is skipped, one sign is read, then
  the longest run of decimal digits; what follows is ignored. No digit gives NaN, which
  is \<open>None\<close> here. The result is the exact integer: the rounding of JavaScript numbers
  above \<open>2^53\<close> is not modelled, and the negative zero that \<open>-0\<close> reads as is zero.
\<close>

definition parseInt10 :: "js_string \<Rightarrow> int option" where
  "parseInt10 s =
     (let S = dropWhile is_white s;
          sign = (case S of c # _ \<Rightarrow> if c = 45 then - 1 else 1 | [] \<Rightarrow> 1);
          S' = (case S of c # r \<Rightarrow> if c = 43 \<or> c = 45 then r else S | [] \<Rightarrow> S);
          Z = takeWhile is_digit S'
      in if Z = [] then None else Some (sign * digits_value Z))"

text \<open>
  The properties of the form that the handler reads, and what \<open>onChange\<close> is called
  with (\<open>new_colors\<close> and \<open>new_thresholds\<close> are the fields \<open>colors\<close> and \<open>thresholds\<close> of
  that object).
\<close>

record ThresholdsProps =
  colors :: "js_string list option"

record ThresholdsChange =
  new_colors :: "js_string list"
  new_thresholds :: "int list"

text \<open>The loop of \<open>handleThresholdChange\<close> over the segments, from index \<open>i\<close>.\<close>

function threshold_loop :: "nat \<Rightarrow> js_string list \<Rightarrow> int list \<Rightarrow> int list" where
  "threshold_loop i splitted thresholds =
     (if i < length splitted
      then (let num = (case parseInt10 (trim (splitted ! i)) of None \<Rightarrow> 0 | Some n \<Rightarrow> n)
            in threshold_loop (i + 1) splitted (thresholds @ [num]))
      else thresholds)"
  by pat_completeness auto
termination
  by (relation "measure (\<lambda>(i, splitted, thresholds). length splitted - i)") auto

declare threshold_loop.simps [simp del]

definition handleThresholdChange :: "ThresholdsProps \<Rightarrow> js_string \<Rightarrow> ThresholdsChange" where
  "handleThresholdChange p v =
     \<lparr>new_colors = (case colors p of None \<Rightarrow> [] | Some cs \<Rightarrow> cs),
      new_thresholds = threshold_loop 0 (split_on 44 v) []\<rparr>"

section \<open>A fragment of the regular expressions\<close>

text \<open>
  For the concrete examples below the regular expressions are instantiated by a fragment
  of JavaScript's: a pattern that does not start with a slash, which
  \<open>stringToJsRegex\<close> compiles to the anchored expression \<open>^pattern$\<close>, made of
  literal characters, the dot and the star. A star with nothing to repeat is a syntax
  error, as in JavaScript. Every other special character (backslash, caret, dollar,
  plus, question mark, parentheses, brackets, braces, bar, slash), and with the slash the
  form \<open>/pattern/flags\<close>, is outside the fragment and answered with \<open>OtherError\<close>:
  nothing is claimed about such patterns.
\<close>

datatype atom = AnyChar | Lit nat

type_synonym frag_regex = "(atom \<times> bool) list"

definition frag_special :: "nat \<Rightarrow> bool" where
  "frag_special c = (c \<in> set [92, 94, 36, 43, 63, 40, 41, 91, 93, 123, 125, 124, 47])"

definition prepend :: "'a \<Rightarrow> 'e + 'a list \<Rightarrow> 'e + 'a list" where
  "prepend x r = (case r of Inl e \<Rightarrow> Inl e | Inr xs \<Rightarrow> Inr (x # xs))"

fun frag_parse :: "js_string \<Rightarrow> js_error + frag_regex" where
  "frag_parse [] = Inr []"
| "frag_parse (c # cs) =
     (if c = 42 then Inl SyntaxError
      else if frag_special c then Inl OtherError
      else (let a = (if c = 46 then AnyChar else Lit c)
            in case cs of
                 [] \<Rightarrow> Inr [(a, False)]
               | d # r \<Rightarrow>
                   if d = 42 then prepend (a, True) (frag_parse r)
                   else prepend (a, False) (frag_parse cs)))"

fun atom_matches :: "atom \<Rightarrow> nat \<Rightarrow> bool" where
  "atom_matches AnyChar c = (c \<noteq> 10 \<and> c \<noteq> 13 \<and> c \<noteq> 8232 \<and> c \<noteq> 8233)"
| "atom_matches (Lit l) c = (c = l)"

text \<open>Whether the whole of the text matches: the expression is anchored at both ends.\<close>

fun frag_matches :: "frag_regex \<Rightarrow> js_string \<Rightarrow> bool" where
  "frag_matches [] s = (s = [])"
| "frag_matches ((a, False) # r) [] = False"
| "frag_matches ((a, False) # r) (c # cs) = (atom_matches a c \<and> frag_matches r cs)"
| "frag_matches ((a, True) # r) [] = frag_matches r []"
| "frag_matches ((a, True) # r) (c # cs) =
     (frag_matches r (c # cs) \<or> (atom_matches a c \<and> frag_matches ((a, True) # r) cs))"

text \<open>
  The replacement text of \<open>replace\<close> for a match \<open>m\<close> that is the whole string, in an
  expression without groups: a doubled dollar is a dollar, dollar-ampersand is the
  match, the text before and after the match (dollar-backquote, dollar-quote) is empty,
  and any other dollar stands for itself.
\<close>

fun expand_alias :: "js_string \<Rightarrow> js_string \<Rightarrow> js_string" where
  "expand_alias m (c # d # r) =
     (if c = 36 \<and> d = 36 then 36 # expand_alias m r
      else if c = 36 \<and> d = 38 then m @ expand_alias m r
      else if c = 36 \<and> (d = 96 \<or> d = 39) then expand_alias m r
      else c # expand_alias m (d # r))"
| "expand_alias m r = r"

definition fragment :: "frag_regex RegexApi" where
  "fragment =
     \<lparr>stringToJsRegex = frag_parse,
      str_match = (\<lambda>title regex. frag_matches regex title),
      str_replace = (\<lambda>title regex a. expand_alias title a)\<rparr>"

section \<open>Example inputs\<close>

text \<open>
  The data frame of the spec's scenario (three columns, two rows), one style rule, and
  the properties with the defaults of the component.
\<close>

definition example_frame :: "unit DataFrame js_obj" where
  "example_frame =
     Val (1, \<lparr>df_fields = Some [\<lparr>name = js ''temp_avg'', config = ()\<rparr>,
                                \<lparr>name = js ''temp_max'', config = ()\<rparr>,
                                \<lparr>name = js ''status'', config = ()\<rparr>],
              row_count = 2\<rparr>)"

definition temperature_rule :: ColumnStyle where
  "temperature_rule = \<lparr>pattern = js ''temp_.*'', style_alias = Some (js ''Temperature'')\<rparr>"

definition example_styles :: "ColumnStyle list js_obj" where
  "example_styles = Val (2, [temperature_rule])"

definition example_props :: "(unit, unit) Props" where
  "example_props =
     \<lparr>data = example_frame, minColumnWidth = 150, showHeader = True, fixedHeader = True,
      fixedColumns = 0, styles = example_styles, width = 600, height = 400, theme = ()\<rparr>"

definition example_state :: "unit State" where
  "example_state = \<lparr>sortBy = Val 1, sortDirection = Val DESC, state_data = example_frame\<rparr>"

text \<open>
  A data frame without columns; a sorter that returns its frame as it is, as the
  library's does when no column is given; and an instance showing the example frame,
  with one measured cell in its cache.
\<close>

definition empty_frame :: "unit DataFrame js_obj" where
  "empty_frame = Val (3, \<lparr>df_fields = Some [], row_count = 0\<rparr>)"

definition example_sorter :: "unit sorter" where
  "example_sorter d sortIndex reverse = Inr d"

definition example_table :: "(unit, unit) Table" where
  "example_table =
     \<lparr>props = example_props,
      state = \<lparr>sortBy = Undefined, sortDirection = Undefined, state_data = example_frame\<rparr>,
      renderer = [], measurer = [(1, 0) \<mapsto> (30, 200)], scrollToTop = False\<rparr>"

text \<open>
  The instance after a click on the header of column 1, and the instance when a frame
  without columns has arrived as the new data.
\<close>

definition clicked_table :: "(unit, unit) Table" where
  "clicked_table = example_table\<lparr>state := doSort 1 (state example_table)\<rparr>"

definition emptied_table :: "(unit, unit) Table" where
  "emptied_table = example_table\<lparr>props := example_props\<lparr>data := empty_frame\<rparr>\<rparr>"

text \<open>The column layout of the example.\<close>

definition example_renderer :: "(unit, unit) ColumnRenderInfo list" where
  "example_renderer =
     [\<lparr>header = js ''Temperature'', column_width = 200,
       builder = GetCellBuilder () (Some temperature_rule) ()\<rparr>,
      \<lparr>header = js ''Temperature'', column_width = 200,
       builder = GetCellBuilder () (Some temperature_rule) ()\<rparr>,
      \<lparr>header = js ''status'', column_width = 200, builder = GetCellBuilder () None ()\<rparr>]"

text \<open>
  A rule whose pattern is a lone star, which is no regular expression (nothing to
  repeat); a rule for the third column; and the example with these two rules as styles.
\<close>

definition star_rule :: ColumnStyle where
  "star_rule = \<lparr>pattern = js ''*'', style_alias = None\<rparr>"

definition status_rule :: ColumnStyle where
  "status_rule = \<lparr>pattern = js ''status'', style_alias = Some (js ''State'')\<rparr>"

definition malformed_props :: "(unit, unit) Props" where
  "malformed_props = example_props\<lparr>styles := Val (5, [star_rule, status_rule])\<rparr>"






section \<open>Properties\<close>

subsection \<open>Coordinate mapping\<close>

text \<open>
  C6. The grid row is shifted by one when the header is shown and unchanged when it is
  hidden; the column index is passed through.
\<close>

theorem getCellRef_maps:
  "row (getCellRef p rowIndex columnIndex) = (if showHeader p then rowIndex - 1 else rowIndex)
   \<and> column (getCellRef p rowIndex columnIndex) = columnIndex"
  by (simp add: getCellRef_def)

theorem getCellRef_maps_witness:
  "row (getCellRef example_props 0 2) = - 1 \<and> column (getCellRef example_props 0 2) = 2
   \<and> row (getCellRef (example_props\<lparr>showHeader := False\<rparr>) 5 2) = 5"
  using getCellRef_maps [of example_props 0 2]
    getCellRef_maps [of "example_props\<lparr>showHeader := False\<rparr>" 5 2]
  by (simp add: example_props_def)

subsection \<open>The sort cycle\<close>

text \<open>
  C2. An activation of the header of column \<open>c\<close> moves the status of \<open>c\<close> one step
  along Unsorted, Descending, Ascending, Unsorted, from any state, so three activations
  bring it back; activating another column \<open>d\<close> while \<open>c\<close> is the sorted column makes
  \<open>d\<close> the sorted column, descending, and \<open>c\<close> unsorted; and two columns are never
  sorted at once.
\<close>

theorem doSort_cycle:
  "column_status (doSort c s) c =
     (case column_status s c of
        Unsorted \<Rightarrow> Descending | Descending \<Rightarrow> Ascending | Ascending \<Rightarrow> Unsorted)
   \<and> column_status (doSort c (doSort c (doSort c s))) c = column_status s c
   \<and> (sortBy s = Val c \<and> d \<noteq> c \<longrightarrow>
        sortBy (doSort d s) = Val d \<and> sortDirection (doSort d s) = Val DESC
        \<and> column_status (doSort d s) d = Descending
        \<and> column_status (doSort d s) c = Unsorted)
   \<and> (column_status s c \<noteq> Unsorted \<and> column_status s d \<noteq> Unsorted \<longrightarrow> c = d)"
  by (auto simp: doSort_def column_status_def split: if_splits)

theorem doSort_cycle_witness:
  "column_status example_state 1 = Descending
   \<and> column_status (doSort 1 example_state) 1 = Ascending
   \<and> column_status (doSort 1 (doSort 1 example_state)) 1 = Unsorted
   \<and> column_status (doSort 1 (doSort 1 (doSort 1 example_state))) 1 = Descending
   \<and> sortBy (doSort 2 example_state) = Val 2
   \<and> sortDirection (doSort 2 example_state) = Val DESC
   \<and> column_status (doSort 2 example_state) 2 = Descending
   \<and> column_status (doSort 2 example_state) 1 = Unsorted"
  using doSort_cycle [of 1 example_state 2] doSort_cycle [of 1 example_state 1]
    doSort_cycle [of 1 "doSort 1 example_state" 2]
  by (simp add: example_state_def column_status_def doSort_def)

text \<open>
  A click on a cell is an activation of the header exactly when the cell is in the
  header row, which exists when the header is shown.
\<close>

lemma onCellClick_header:
  "showHeader p \<Longrightarrow> onCellClick p 0 c s = doSort c s"
  "showHeader p \<Longrightarrow> 0 < rowIndex \<Longrightarrow> onCellClick p rowIndex c s = s"
  "\<not> showHeader p \<Longrightarrow> 0 \<le> rowIndex \<Longrightarrow> onCellClick p rowIndex c s = s"
  by (simp_all add: onCellClick_def getCellRef_def Let_def)

subsection \<open>Evaluation of the examples\<close>

lemma js_simps [simp]:
  "js [] = []" "js (c # cs) = of_char c # js cs"
  by (simp_all add: js_def)

lemma example_headers:
  "initColumns fragment example_props = Inr example_renderer"
  by (simp add: initColumns_def initColumn_def example_props_def example_frame_def
      example_styles_def missing_fields_def fields_of_def fragment_def frag_special_def
      prepend_def temperature_rule_def example_renderer_def)

lemma fragment_simps [simp]:
  "stringToJsRegex fragment = frag_parse"
  "str_match fragment title regex = frag_matches regex title"
  "str_replace fragment title regex a = expand_alias title a"
  by (simp_all add: fragment_def)

lemma rule_evaluations:
  "frag_parse (pattern star_rule) = Inl SyntaxError"
  "frag_parse (pattern temperature_rule) =
     Inr [(Lit 116, False), (Lit 101, False), (Lit 109, False), (Lit 112, False),
          (Lit 95, False), (AnyChar, True)]"
  "frag_parse (pattern status_rule) =
     Inr [(Lit 115, False), (Lit 116, False), (Lit 97, False), (Lit 116, False),
          (Lit 117, False), (Lit 115, False)]"
  by (simp_all add: star_rule_def temperature_rule_def status_rule_def frag_special_def
      prepend_def)

subsection \<open>The measurement cache\<close>

lemma measurer_resetSizeCache:
  "measurer (resetSizeCache prevProps t) =
     (if dataChanged prevProps t \<or> configsChanged prevProps t then Map.empty else measurer t)"
  by (simp add: resetSizeCache_def)

lemma changed_resetSizeCache [simp]:
  "dataChanged prevProps (resetSizeCache pp t) = dataChanged prevProps t"
  "stylesChanged prevProps (resetSizeCache pp t) = stylesChanged prevProps t"
  "sortChanged prevState (resetSizeCache pp t) = sortChanged prevState t"
  "props (resetSizeCache pp t) = props t"
  by (simp_all add: resetSizeCache_def dataChanged_def stylesChanged_def sortChanged_def)

lemma measurer_updateRenderer:
  "measurer (instance_after (updateRenderer E prevProps t)) = measurer t"
  by (simp add: updateRenderer_def instance_after_def split: sum.splits)

lemma measurer_updateData:
  "measurer (instance_after (updateData srt prevProps prevState t)) = measurer t"
  by (simp add: updateData_def instance_after_def Let_def split: sum.splits)

lemma measurer_componentDidUpdate:
  "measurer (instance_after (componentDidUpdate E srt prevProps prevState t)) =
     (if dataChanged prevProps t \<or> configsChanged prevProps t then Map.empty else measurer t)"
proof (cases "updateRenderer E prevProps (resetSizeCache prevProps t)")
  case (Inl x)
  then have "instance_after (componentDidUpdate E srt prevProps prevState t) =
      instance_after (updateRenderer E prevProps (resetSizeCache prevProps t))"
    by (simp add: componentDidUpdate_def)
  then show ?thesis
    by (simp only: measurer_updateRenderer measurer_resetSizeCache)
next
  case (Inr t')
  then have t': "measurer t' = measurer (resetSizeCache prevProps t)"
    using measurer_updateRenderer [of E prevProps "resetSizeCache prevProps t"]
    by (simp add: instance_after_def)
  from Inr have "instance_after (componentDidUpdate E srt prevProps prevState t) =
      instance_after (updateData srt prevProps prevState t')"
    by (simp add: componentDidUpdate_def)
  then show ?thesis
    by (simp only: measurer_updateData t' measurer_resetSizeCache)
qed





subsection \<open>Updates that change nothing\<close>

text \<open>
  C9, as the code has it. An update with the data reference, the style list reference
  and the sort state unchanged rebuilds no layout, sorts nothing and requests no scroll;
  it empties the cache exactly when one of showHeader, fixedColumns, fixedHeader
  changed, and is without any effect when these are unchanged too.
\<close>

theorem unchanged_update:
  "\<not> dataChanged prevProps t \<and> \<not> stylesChanged prevProps t \<and> \<not> sortChanged prevState t \<longrightarrow>
     componentDidUpdate E srt prevProps prevState t =
       Inr (if configsChanged prevProps t then t\<lparr>measurer := Map.empty\<rparr> else t)"
  by (simp add: componentDidUpdate_def resetSizeCache_def updateData_def updateRenderer_def
      dataChanged_def sortChanged_def stylesChanged_def)

theorem unchanged_update_witness:
  "componentDidUpdate fragment example_sorter example_props (state example_table) example_table
     = Inr example_table
   \<and> componentDidUpdate fragment example_sorter (example_props\<lparr>fixedColumns := 1\<rparr>)
       (state example_table) example_table
     = Inr (example_table\<lparr>measurer := Map.empty\<rparr>)"
  using unchanged_update [of example_props example_table "state example_table" fragment
      example_sorter]
    unchanged_update [of "example_props\<lparr>fixedColumns := 1\<rparr>" example_table
      "state example_table" fragment example_sorter]
  by (simp add: dataChanged_def configsChanged_def stylesChanged_def sortChanged_def
      example_table_def example_props_def example_styles_def example_frame_def)

text \<open>
  The claim without the three flags fails: hiding the header, with data, styles and sort
  state as before, empties the cache.
\<close>

theorem unchanged_update_counterexample:
  "\<not> dataChanged (example_props\<lparr>showHeader := False\<rparr>) example_table
   \<and> \<not> stylesChanged (example_props\<lparr>showHeader := False\<rparr>) example_table
   \<and> \<not> sortChanged (state example_table) example_table
   \<and> measurer example_table (1, 0) = Some (30, 200)
   \<and> measurer (instance_after (componentDidUpdate fragment example_sorter
        (example_props\<lparr>showHeader := False\<rparr>) (state example_table) example_table)) (1, 0)
      = None"
  by (simp add: measurer_componentDidUpdate dataChanged_def configsChanged_def
      stylesChanged_def sortChanged_def example_table_def example_props_def
      example_styles_def example_frame_def)

subsection \<open>Scrolling to the top\<close>

lemma scrollToTop_componentDidUpdate:
  assumes "componentDidUpdate E srt prevProps prevState t = Inr t'"
  shows "scrollToTop t' = (scrollToTop t \<or> dataChanged prevProps t \<or> sortChanged prevState t)"
  using assms
  by (auto simp: componentDidUpdate_def resetSizeCache_def updateRenderer_def updateData_def
      Let_def dataChanged_def sortChanged_def split: sum.splits if_splits)

lemma render_grid:
  assumes "\<not> missing_fields (state_data (state t))"
  shows "scroll_request (fst (render t)) = Some (if scrollToTop t then 1 else - 1)"
    and "\<not> scrollToTop (snd (render t))"
    and "state (snd (render t)) = state t"
    and "props (snd (render t)) = props t"
  using assms by (simp_all add: render_def scroll_request_def Let_def)

lemma render_placeholder:
  assumes "missing_fields (state_data (state t))"
  shows "render t = (MissingFields, t)"
  using assms by (simp add: render_def)

lemma clicked_update:
  "componentDidUpdate fragment example_sorter example_props (state example_table) clicked_table
     = Inr (clicked_table\<lparr>scrollToTop := True\<rparr>)"
  by (simp add: componentDidUpdate_def resetSizeCache_def updateRenderer_def updateData_def
      dataChanged_def configsChanged_def stylesChanged_def sortChanged_def clicked_table_def
      example_table_def example_props_def example_frame_def example_styles_def doSort_def
      example_sorter_def)

lemma emptied_update:
  "componentDidUpdate fragment example_sorter example_props (state emptied_table) emptied_table
     = Inr (emptied_table\<lparr>renderer := [], measurer := Map.empty, scrollToTop := True,
          state := (state emptied_table)\<lparr>state_data := empty_frame\<rparr>\<rparr>)"
  by (simp add: componentDidUpdate_def resetSizeCache_def updateRenderer_def updateData_def
      dataChanged_def configsChanged_def stylesChanged_def sortChanged_def emptied_table_def
      example_table_def example_props_def example_frame_def example_styles_def
      example_sorter_def empty_frame_def initColumns_def missing_fields_def)

text \<open>
  C4, as the code has it. An update that returns leaves the flag set exactly when it
  was set before or the data reference or the sort state changed. A rendering of the
  grid with the flag set and the header shown asks for the first data row; every
  rendering of the grid clears the flag, so that the next one asks for no row (row
  \<open>-1\<close>), as does a rendering with the flag not set, which changes nothing. A
  rendering of the placeholder asks for nothing and leaves the flag as it is.
\<close>

theorem scrollToTop_one_shot:
  "(componentDidUpdate E srt prevProps prevState t = Inr t' \<longrightarrow>
      scrollToTop t' = (scrollToTop t \<or> dataChanged prevProps t \<or> sortChanged prevState t))
   \<and> (\<not> missing_fields (state_data (state t)) \<and> scrollToTop t \<and> showHeader (props t) \<longrightarrow>
        (\<exists>r. scroll_request (fst (render t)) = Some r \<and> row (getCellRef (props t) r c) = 0))
   \<and> (\<not> missing_fields (state_data (state t)) \<longrightarrow>
        \<not> scrollToTop (snd (render t))
        \<and> scroll_request (fst (render (snd (render t)))) = Some (- 1))
   \<and> (\<not> missing_fields (state_data (state t)) \<and> \<not> scrollToTop t \<longrightarrow>
        scroll_request (fst (render t)) = Some (- 1) \<and> snd (render t) = t)
   \<and> (missing_fields (state_data (state t)) \<longrightarrow> render t = (MissingFields, t))"
proof (intro conjI impI)
  show "scrollToTop t' = (scrollToTop t \<or> dataChanged prevProps t \<or> sortChanged prevState t)"
    if "componentDidUpdate E srt prevProps prevState t = Inr t'"
    using that by (rule scrollToTop_componentDidUpdate)
  show "\<exists>r. scroll_request (fst (render t)) = Some r \<and> row (getCellRef (props t) r c) = 0"
    if "\<not> missing_fields (state_data (state t)) \<and> scrollToTop t \<and> showHeader (props t)"
    using that by (simp add: render_grid getCellRef_def)
  show "\<not> scrollToTop (snd (render t))" if "\<not> missing_fields (state_data (state t))"
    using that by (rule render_grid)
  show "scroll_request (fst (render (snd (render t)))) = Some (- 1)"
    if "\<not> missing_fields (state_data (state t))"
  proof -
    from that have "\<not> missing_fields (state_data (state (snd (render t))))"
      by (simp add: render_grid)
    then show ?thesis
      using that by (simp add: render_grid)
  qed
  show "scroll_request (fst (render t)) = Some (- 1)"
    if "\<not> missing_fields (state_data (state t)) \<and> \<not> scrollToTop t"
    using that by (simp add: render_grid)
  show "snd (render t) = t"
    if "\<not> missing_fields (state_data (state t)) \<and> \<not> scrollToTop t"
    using that by (simp add: render_def Let_def)
  show "render t = (MissingFields, t)" if "missing_fields (state_data (state t))"
    using that by (rule render_placeholder)
qed


theorem scrollToTop_one_shot_witness:
  "componentDidUpdate fragment example_sorter example_props (state example_table) clicked_table
     = Inr (clicked_table\<lparr>scrollToTop := True\<rparr>)
   \<and> sortChanged (state example_table) clicked_table
   \<and> scroll_request (fst (render (clicked_table\<lparr>scrollToTop := True\<rparr>))) = Some 1
   \<and> row (getCellRef (props clicked_table) 1 0) = 0
   \<and> \<not> scrollToTop (snd (render (clicked_table\<lparr>scrollToTop := True\<rparr>)))
   \<and> scroll_request (fst (render (snd (render (clicked_table\<lparr>scrollToTop := True\<rparr>)))))
       = Some (- 1)
   \<and> scroll_request (fst (render example_table)) = Some (- 1)
   \<and> snd (render example_table) = example_table
   \<and> render (example_table\<lparr>state := (state example_table)\<lparr>state_data := empty_frame\<rparr>\<rparr>)
       = (MissingFields, example_table\<lparr>state := (state example_table)\<lparr>state_data := empty_frame\<rparr>\<rparr>)"
proof -
  let ?t = "clicked_table\<lparr>scrollToTop := True\<rparr>"
  let ?blank = "example_table\<lparr>state := (state example_table)\<lparr>state_data := empty_frame\<rparr>\<rparr>"
  have grid: "\<not> missing_fields (state_data (state ?t))"
    "\<not> missing_fields (state_data (state example_table))"
    by (simp_all add: clicked_table_def doSort_def example_table_def example_frame_def
        missing_fields_def)
  have blank: "missing_fields (state_data (state ?blank))"
    by (simp add: empty_frame_def missing_fields_def)
  have shown: "showHeader (props ?t)" "props ?t = props clicked_table"
    by (simp_all add: clicked_table_def example_table_def example_props_def)
  have flags: "scrollToTop ?t" "\<not> scrollToTop example_table"
    "\<not> dataChanged example_props clicked_table"
    by (simp_all add: clicked_table_def example_table_def dataChanged_def
        example_props_def example_frame_def)
  note update = scrollToTop_one_shot [of fragment example_sorter example_props
      "state example_table" clicked_table ?t 0]
  note after_click = scrollToTop_one_shot [of fragment example_sorter example_props
      "state example_table" ?t ?t 0]
  note at_rest = scrollToTop_one_shot [of fragment example_sorter example_props
      "state example_table" example_table ?t 0]
  note no_fields = scrollToTop_one_shot [of fragment example_sorter example_props
      "state example_table" ?blank ?t 0]
  from update clicked_update
  have "scrollToTop ?t = (scrollToTop clicked_table
      \<or> dataChanged example_props clicked_table
      \<or> sortChanged (state example_table) clicked_table)"
    by blast
  then have changed: "sortChanged (state example_table) clicked_table"
    using flags(3) by (simp add: clicked_table_def example_table_def)
  from after_click grid shown flags
  have "\<exists>r. scroll_request (fst (render ?t)) = Some r \<and> row (getCellRef (props ?t) r 0) = 0"
    by blast
  moreover have "scroll_request (fst (render ?t)) = Some 1"
    using grid flags by (simp add: render_grid)
  ultimately have "row (getCellRef (props clicked_table) 1 0) = 0"
    by (simp add: shown)
  moreover from after_click grid
  have "\<not> scrollToTop (snd (render ?t))
      \<and> scroll_request (fst (render (snd (render ?t)))) = Some (- 1)"
    by blast
  moreover from at_rest grid flags
  have "scroll_request (fst (render example_table)) = Some (- 1)
      \<and> snd (render example_table) = example_table"
    by blast
  moreover from no_fields blank have "render ?blank = (MissingFields, ?blank)"
    by blast
  moreover have "scroll_request (fst (render ?t)) = Some 1"
    using grid flags by (simp add: render_grid)
  ultimately show ?thesis
    using changed clicked_update by simp
qed

text \<open>
  The claim as stated fails twice. When the new data has no columns the update sets the
  flag, and the rendering that follows shows the placeholder and keeps the flag. And
  with the header hidden the row asked for, grid row 1, is the second data row.
\<close>

theorem scrollToTop_one_shot_counterexample:
  "scrollToTop (instance_after (componentDidUpdate fragment example_sorter example_props
       (state emptied_table) emptied_table))
   \<and> fst (render (instance_after (componentDidUpdate fragment example_sorter example_props
       (state emptied_table) emptied_table))) = MissingFields
   \<and> scrollToTop (snd (render (instance_after (componentDidUpdate fragment example_sorter
       example_props (state emptied_table) emptied_table))))
   \<and> scroll_request (fst (render (example_table\<lparr>props := example_props\<lparr>showHeader := False\<rparr>,
       scrollToTop := True\<rparr>))) = Some 1
   \<and> row (getCellRef (example_props\<lparr>showHeader := False\<rparr>) 1 0) = 1"
proof -
  let ?after = "instance_after (componentDidUpdate fragment example_sorter example_props
       (state emptied_table) emptied_table)"
  let ?hidden = "example_table\<lparr>props := example_props\<lparr>showHeader := False\<rparr>,
       scrollToTop := True\<rparr>"
  have after: "scrollToTop ?after" "missing_fields (state_data (state ?after))"
    by (simp_all add: emptied_update instance_after_def missing_fields_def empty_frame_def)
  then have "render ?after = (MissingFields, ?after)"
    by (simp add: render_placeholder)
  moreover have "\<not> missing_fields (state_data (state ?hidden))"
    by (simp add: example_table_def example_frame_def missing_fields_def)
  then have "scroll_request (fst (render ?hidden)) = Some 1"
    by (simp add: render_grid)
  moreover have "row (getCellRef (example_props\<lparr>showHeader := False\<rparr>) 1 0) = 1"
    by (simp add: getCellRef_def)
  ultimately show ?thesis
    using after by simp
qed

subsection \<open>A data frame without columns\<close>






subsection \<open>Column widths\<close>















subsection \<open>Style resolution\<close>

lemma find_style_skip:
  assumes "\<forall>s \<in> set pre. \<exists>regex. stringToJsRegex E (pattern s) = Inr regex
      \<and> \<not> str_match E title regex"
  shows "find_style E title (pre @ rest) = find_style E title rest"
  using assms by (induction pre) auto

lemma map_throw_all:
  "map_throw f xs = Inr ys \<Longrightarrow> x \<in> set xs \<Longrightarrow> \<exists>y. f x = Inr y"
  by (induction xs arbitrary: ys) (auto split: sum.splits)

lemma initColumns_throws:
  assumes "\<not> missing_fields (data p)" "styles p = Val (a, sts)"
    "col \<in> set (fields_of (data p))" "find_style E (name col) sts = Inl e"
  shows "\<exists>e'. initColumns E p = Inl e'"
proof (cases "initColumns E p")
  case (Inr r)
  let ?w = "max (width p / real (length (fields_of (data p)))) (minColumnWidth p)"
  from Inr assms(1,2)
  have "map_throw (initColumn E (theme p) ?w sts) (fields_of (data p)) = Inr r"
    by (simp add: initColumns_def)
  from map_throw_all [OF this assms(3)] assms(4) show ?thesis
    by (simp add: initColumn_def)
qed simp

text \<open>
  C5, as the code has it. The rules are evaluated in order. Rules that compile and do
  not match are skipped: if all rules are such, the column keeps its name and has no
  style. After such rules, a rule whose pattern does not compile makes the resolution
  throw the error of the compilation, whatever rules follow; and a rule that compiles
  and matches is the result, without the rules after it being looked at. A column whose
  resolution throws makes the building of the whole layout throw.
\<close>

theorem find_style_in_order:
  "((\<forall>s \<in> set pre. \<exists>regex. stringToJsRegex E (pattern s) = Inr regex
      \<and> \<not> str_match E title regex) \<longrightarrow>
     find_style E title pre = Inr (title, None)
     \<and> (stringToJsRegex E (pattern s) = Inl e \<longrightarrow>
          find_style E title (pre @ s # post) = Inl e)
     \<and> (stringToJsRegex E (pattern s) = Inr regex \<and> str_match E title regex \<longrightarrow>
          find_style E title (pre @ s # post) =
            Inr (case style_alias s of
                   None \<Rightarrow> title
                 | Some a \<Rightarrow> if a = [] then title else str_replace E title regex a,
                 Some s)))
   \<and> (\<not> missing_fields (data p) \<and> styles p = Val (a, sts)
        \<and> col \<in> set (fields_of (data p)) \<and> find_style E (name col) sts = Inl e \<longrightarrow>
        (\<exists>e'. initColumns E p = Inl e'))"
proof (intro impI conjI)
  show "\<exists>e'. initColumns E p = Inl e'"
    if "\<not> missing_fields (data p) \<and> styles p = Val (a, sts)
        \<and> col \<in> set (fields_of (data p)) \<and> find_style E (name col) sts = Inl e"
    using that by (blast intro: initColumns_throws)
  assume pre: "\<forall>s \<in> set pre. \<exists>regex. stringToJsRegex E (pattern s) = Inr regex
      \<and> \<not> str_match E title regex"
  from find_style_skip [OF pre, of "[]"] show "find_style E title pre = Inr (title, None)"
    by simp
  show "find_style E title (pre @ s # post) = Inl e" if "stringToJsRegex E (pattern s) = Inl e"
    using that by (simp add: find_style_skip [OF pre])
  show "find_style E title (pre @ s # post) =
      Inr (case style_alias s of
             None \<Rightarrow> title
           | Some a \<Rightarrow> if a = [] then title else str_replace E title regex a,
           Some s)"
    if "stringToJsRegex E (pattern s) = Inr regex \<and> str_match E title regex"
    using that by (simp add: find_style_skip [OF pre])
qed

theorem find_style_in_order_witness:
  "find_style fragment (js ''status'') [temperature_rule] = Inr (js ''status'', None)
   \<and> find_style fragment (js ''status'') [temperature_rule, star_rule, status_rule]
       = Inl SyntaxError
   \<and> find_style fragment (js ''status'') [temperature_rule, status_rule, star_rule]
       = Inr (js ''State'', Some status_rule)
   \<and> (\<exists>e'. initColumns fragment malformed_props = Inl e')"
proof -
  let ?temp = "[(Lit 116, False), (Lit 101, False), (Lit 109, False), (Lit 112, False),
          (Lit 95, False), (AnyChar, True)]"
  let ?status = "[(Lit 115, False), (Lit 116, False), (Lit 97, False), (Lit 116, False),
          (Lit 117, False), (Lit 115, False)]"
  have pre: "\<forall>s \<in> set [temperature_rule].
      \<exists>regex. stringToJsRegex fragment (pattern s) = Inr regex
        \<and> \<not> str_match fragment (js ''status'') regex"
    by (simp add: rule_evaluations)
  have hit: "stringToJsRegex fragment (pattern status_rule) = Inr ?status
      \<and> str_match fragment (js ''status'') ?status"
    by (simp add: rule_evaluations)
  have title: "(case style_alias status_rule of
        None \<Rightarrow> js ''status''
      | Some a \<Rightarrow> if a = [] then js ''status''
                  else str_replace fragment (js ''status'') ?status a) = js ''State''"
    by (simp add: status_rule_def)
  note malformed = find_style_in_order [of "[temperature_rule]" fragment "js ''status''"
      star_rule SyntaxError "[status_rule]" ?status]
  note matched = find_style_in_order [of "[temperature_rule]" fragment "js ''status''"
      status_rule SyntaxError "[star_rule]" ?status]
  have bad: "stringToJsRegex fragment (pattern star_rule) = Inl SyntaxError"
    by (simp add: rule_evaluations)
  from malformed pre bad
  have "find_style fragment (js ''status'') [temperature_rule] = Inr (js ''status'', None)
      \<and> find_style fragment (js ''status'') ([temperature_rule] @ star_rule # [status_rule])
         = Inl SyntaxError"
    by blast
  moreover from matched pre hit
  have "find_style fragment (js ''status'') ([temperature_rule] @ status_rule # [star_rule])
      = Inr (case style_alias status_rule of
        None \<Rightarrow> js ''status''
      | Some a \<Rightarrow> if a = [] then js ''status''
                  else str_replace fragment (js ''status'') ?status a, Some status_rule)"
    by blast
  moreover
  have "\<not> missing_fields (data malformed_props)
      \<and> styles malformed_props = Val (5, [star_rule, status_rule])
      \<and> \<lparr>name = js ''temp_avg'', config = ()\<rparr> \<in> set (fields_of (data malformed_props))
      \<and> find_style fragment (name \<lparr>name = js ''temp_avg'', config = ()\<rparr>)
            [star_rule, status_rule] = Inl SyntaxError"
    by (simp add: malformed_props_def example_props_def example_frame_def missing_fields_def
        fields_of_def rule_evaluations)
  with find_style_in_order [of "[]" fragment "js ''temp_avg''" star_rule SyntaxError "[]" "[]"
      malformed_props 5 "[star_rule, status_rule]" "\<lparr>name = js ''temp_avg'', config = ()\<rparr>"]
  have "\<exists>e'. initColumns fragment malformed_props = Inl e'"
    by blast
  ultimately show ?thesis
    by (simp only: title append_Cons append_Nil simp_thms)
qed

text \<open>
  The claim fails: with the malformed rule first, the resolution of the column
  \<open>status\<close> throws, and so do the building of the layout and the constructor, although
  the second rule alone resolves the column.
\<close>

theorem malformed_pattern_counterexample:
  "find_style fragment (js ''status'') [star_rule, status_rule] = Inl SyntaxError
   \<and> initColumns fragment malformed_props = Inl SyntaxError
   \<and> constructor fragment malformed_props = Inl SyntaxError
   \<and> find_style fragment (js ''status'') [status_rule] = Inr (js ''State'', Some status_rule)"
proof -
  have thrown: "find_style fragment title (star_rule # ss) = Inl SyntaxError" for title ss
    by (simp add: rule_evaluations)
  then have layout:
    "initColumns fragment malformed_props = Inl SyntaxError"
    by (simp add: initColumns_def initColumn_def malformed_props_def example_props_def
        example_frame_def missing_fields_def fields_of_def)
  have "find_style fragment (js ''status'') [status_rule]
      = Inr (expand_alias (js ''status'') (js ''State''), Some status_rule)"
    by (simp add: rule_evaluations) (simp add: status_rule_def)
  then have "find_style fragment (js ''status'') [status_rule]
      = Inr (js ''State'', Some status_rule)"
    by simp
  with thrown layout show ?thesis
    by (simp add: constructor_def)
qed

subsection \<open>Header cells\<close>

text \<open>
  A header cell that is built shows the name of the column as the displayed data has
  it, and the sort indicator exactly when the column is the sorted one. The layout is
  not consulted.
\<close>

lemma headerBuilder_raw_name:
  assumes "headerBuilder t rowIndex columnIndex = Inr h"
  shows "cell_text h = name (fields_of (state_data (state t)) ! columnIndex)"
    and "sort_indicator h =
      (if sortBy (state t) = Val columnIndex then Some (sortDirection (state t)) else None)"
    and "columnIndex < length (fields_of (state_data (state t)))"
  using assms
  by (auto simp: headerBuilder_def getCellRef_def fields_of_def Let_def
      split: js_opt.splits option.splits if_splits)

text \<open>
  C1 does not hold of the code. In the spec's scenario the layout built by
  \<open>initColumns\<close> has the title \<open>Temperature\<close> for the first column, but the header
  cell of that column shows \<open>temp_avg\<close>, sorted or not: \<open>headerBuilder\<close> reads the
  name of the field and never the \<open>header\<close> of the layout.
\<close>

theorem header_ignores_alias:
  "constructor fragment example_props =
     Inr (example_table\<lparr>renderer := example_renderer, measurer := Map.empty\<rparr>)
   \<and> header (example_renderer ! 0) = js ''Temperature''
   \<and> headerBuilder (example_table\<lparr>renderer := example_renderer, measurer := Map.empty\<rparr>) 0 0
       = Inr \<lparr>cell_text = js ''temp_avg'', sort_indicator = None\<rparr>
   \<and> headerBuilder (example_table\<lparr>renderer := example_renderer, measurer := Map.empty,
         state := doSort 0 (state example_table)\<rparr>) 0 0
       = Inr \<lparr>cell_text = js ''temp_avg'', sort_indicator = Some (Val DESC)\<rparr>
   \<and> js ''temp_avg'' \<noteq> js ''Temperature''"
proof -
  have "constructor fragment example_props =
     Inr (example_table\<lparr>renderer := example_renderer, measurer := Map.empty\<rparr>)"
    by (simp add: constructor_def example_headers) (simp add: example_table_def example_props_def)
  moreover have "header (example_renderer ! 0) = js ''Temperature''"
    by (simp add: example_renderer_def)
  moreover
  have "headerBuilder (example_table\<lparr>renderer := example_renderer, measurer := Map.empty\<rparr>) 0 0
       = Inr \<lparr>cell_text = js ''temp_avg'', sort_indicator = None\<rparr>"
    by (simp add: headerBuilder_def getCellRef_def example_table_def example_frame_def)
  moreover
  have "headerBuilder (example_table\<lparr>renderer := example_renderer, measurer := Map.empty,
         state := doSort 0 (state example_table)\<rparr>) 0 0
       = Inr \<lparr>cell_text = js ''temp_avg'', sort_indicator = Some (Val DESC)\<rparr>"
    by (simp add: headerBuilder_def getCellRef_def example_table_def example_frame_def
        doSort_def)
  ultimately show ?thesis by simp
qed

subsection \<open>The thresholds form\<close>

lemma split_acc_nonempty: "split_acc sep cur s \<noteq> []"
  by (induction s arbitrary: cur) auto

lemma join_on_Cons: "ys \<noteq> [] \<Longrightarrow> join_on sep (x # ys) = x @ sep # join_on sep ys"
  by (cases ys) auto

lemma join_split_acc: "join_on sep (split_acc sep cur s) = cur @ s"
  by (induction s arbitrary: cur) (auto simp: join_on_Cons split_acc_nonempty)

lemma length_split_acc: "length (split_acc sep cur s) = Suc (count_list s sep)"
  by (induction s arbitrary: cur) auto

lemma split_acc_no_sep:
  "sep \<notin> set cur \<Longrightarrow> \<forall>seg \<in> set (split_acc sep cur s). sep \<notin> set seg"
proof (induction s arbitrary: cur)
  case Nil
  then show ?case by simp
next
  case (Cons c cs)
  show ?case
  proof (cases "c = sep")
    case True
    with Cons.IH [of "[]"] Cons.prems show ?thesis by simp
  next
    case False
    with Cons.IH [of "cur @ [c]"] Cons.prems show ?thesis by simp
  qed
qed

lemma threshold_loop_map:
  "threshold_loop i splitted thresholds =
     thresholds @ map (\<lambda>seg. case parseInt10 (trim seg) of None \<Rightarrow> 0 | Some n \<Rightarrow> n)
                      (drop i splitted)"
proof (induction i splitted thresholds rule: threshold_loop.induct)
  case (1 i splitted thresholds)
  show ?case
  proof (cases "i < length splitted")
    case True
    then have d: "drop i splitted = splitted ! i # drop (Suc i) splitted"
      by (simp add: Cons_nth_drop_Suc)
    from True "1.IH" [OF True refl] show ?thesis
      by (subst threshold_loop.simps) (simp add: d)
  next
    case False
    then show ?thesis
      by (subst threshold_loop.simps) simp
  qed
qed

lemma digit_not_white: "is_digit c \<Longrightarrow> \<not> is_white c"
  by (auto simp: is_digit_def is_white_def)

lemma dropWhile_no_white:
  "\<forall>c \<in> set s. \<not> is_white c \<Longrightarrow> dropWhile is_white s = s"
  by (cases s) auto

lemma trim_no_white: "\<forall>c \<in> set s. \<not> is_white c \<Longrightarrow> trim s = s"
  by (simp add: trim_def dropWhile_no_white)

lemma parseInt10_all_digits:
  assumes "ds \<noteq> []" "\<forall>d \<in> set ds. is_digit d"
  shows "parseInt10 (trim ds) = Some (digits_value ds)"
    and "parseInt10 (trim (45 # ds)) = Some (- digits_value ds)"
proof -
  from assms(2) have w: "\<forall>c \<in> set ds. \<not> is_white c"
    by (blast dest: digit_not_white)
  then have w': "\<forall>c \<in> set (45 # ds). \<not> is_white c"
    by (simp add: is_white_def)
  from assms obtain d r where ds: "ds = d # r" and d: "is_digit d"
    by (cases ds) auto
  from d have sign: "d \<noteq> 43" "d \<noteq> 45" "\<not> is_white d"
    by (auto simp: is_digit_def is_white_def)
  from assms(2) have z: "takeWhile is_digit ds = ds"
    by simp
  have "parseInt10 ds = Some (digits_value ds)"
    using z assms(1) sign unfolding parseInt10_def ds by simp
  then show "parseInt10 (trim ds) = Some (digits_value ds)"
    by (simp only: trim_no_white [OF w])
  have "parseInt10 (45 # ds) = Some (- digits_value ds)"
    using assms(1) by (simp add: parseInt10_def is_white_def Let_def z)
  then show "parseInt10 (trim (45 # ds)) = Some (- digits_value ds)"
    by (simp only: trim_no_white [OF w'])
qed

lemma trim_starts_black: "dropWhile is_white (trim s) = trim s"
proof (cases "dropWhile is_white s")
  case Nil
  show ?thesis unfolding trim_def Nil by simp
next
  case (Cons a l)
  then have a: "\<not> is_white a"
    by (metis dropWhile_eq_Cons_conv)
  have "\<exists>zs. dropWhile is_white (rev l @ [a]) = zs @ [a]"
  proof (cases "\<forall>x \<in> set (rev l). is_white x")
    case True
    with a have "dropWhile is_white (rev l @ [a]) = [] @ [a]"
      by (simp add: dropWhile_append)
    then show ?thesis by blast
  next
    case False
    then have "dropWhile is_white (rev l @ [a]) = dropWhile is_white (rev l) @ [a]"
      by (simp add: dropWhile_append)
    then show ?thesis by blast
  qed
  then obtain zs where "dropWhile is_white (rev l @ [a]) = zs @ [a]" ..
  with a show ?thesis
    unfolding trim_def Cons by simp
qed

lemma parseInt10_no_number:
  assumes "trim s = [] \<or> (\<exists>c r. trim s = c # r \<and> \<not> is_digit c \<and> c \<noteq> 43 \<and> c \<noteq> 45)"
  shows "parseInt10 (trim s) = None"
  using assms by (auto simp: parseInt10_def trim_starts_black)

lemma digits_value_snoc:
  "digits_value (ds @ [d]) = 10 * digits_value ds + int (d - 48)"
  by (simp add: digits_value_def)

lemma example_segments:
  "split_on 44 (js ''50, 80,x,-7'') = [js ''50'', js '' 80'', js ''x'', js ''-7'']"
  by (simp add: split_on_def)

lemma example_numbers:
  "parseInt10 (trim (js ''50'')) = Some 50"
  "parseInt10 (trim (js '' 80'')) = Some 80"
  "parseInt10 (trim (js ''x'')) = None"
  "parseInt10 (trim (js ''-7'')) = Some (- 7)"
  "parseInt10 (trim (js ''12px'')) = Some 12"
  "parseInt10 (trim (js '''')) = None"
  by (simp_all add: parseInt10_def trim_def is_white_def is_digit_def digits_value_def)

text \<open>
  C10. The thresholds handed to \<open>onChange\<close> are, segment by segment, the integer that
  \<open>parseInt\<close> reads from the trimmed segment, or 0 where it reads none. The segments
  are the pieces of the text between its commas: there is one more of them than there
  are commas, none contains a comma, and joined with commas they give the text back.
  The colors are those of the properties, or none when the properties have none.
\<close>

theorem thresholds_per_segment:
  "new_thresholds (handleThresholdChange p v) =
     map (\<lambda>seg. case parseInt10 (trim seg) of None \<Rightarrow> 0 | Some n \<Rightarrow> n) (split_on 44 v)
   \<and> length (new_thresholds (handleThresholdChange p v)) = Suc (count_list v 44)
   \<and> join_on 44 (split_on 44 v) = v
   \<and> (\<forall>seg \<in> set (split_on 44 v). 44 \<notin> set seg)
   \<and> new_colors (handleThresholdChange p v) = (case colors p of None \<Rightarrow> [] | Some cs \<Rightarrow> cs)"
proof (intro conjI ballI)
  show t: "new_thresholds (handleThresholdChange p v) =
     map (\<lambda>seg. case parseInt10 (trim seg) of None \<Rightarrow> 0 | Some n \<Rightarrow> n) (split_on 44 v)"
    by (simp add: handleThresholdChange_def threshold_loop_map)
  show "length (new_thresholds (handleThresholdChange p v)) = Suc (count_list v 44)"
    by (simp add: t split_on_def length_split_acc)
  show "join_on 44 (split_on 44 v) = v"
    by (simp add: split_on_def join_split_acc)
  show "44 \<notin> set seg" if "seg \<in> set (split_on 44 v)" for seg
    using that split_acc_no_sep [of 44 "[]" v] by (simp add: split_on_def)
  show "new_colors (handleThresholdChange p v) = (case colors p of None \<Rightarrow> [] | Some cs \<Rightarrow> cs)"
    by (simp add: handleThresholdChange_def)
qed

theorem thresholds_per_segment_witness:
  "handleThresholdChange \<lparr>colors = Some [js ''red'']\<rparr> (js ''50, 80,x,-7'')
     = \<lparr>new_colors = [js ''red''], new_thresholds = [50, 80, 0, - 7]\<rparr>
   \<and> handleThresholdChange \<lparr>colors = None\<rparr> (js '''')
     = \<lparr>new_colors = [], new_thresholds = [0]\<rparr>"
proof -
  from thresholds_per_segment [of "\<lparr>colors = Some [js ''red'']\<rparr>" "js ''50, 80,x,-7''"]
  have "new_thresholds (handleThresholdChange \<lparr>colors = Some [js ''red'']\<rparr>
        (js ''50, 80,x,-7'')) = [50, 80, 0, - 7]
      \<and> new_colors (handleThresholdChange \<lparr>colors = Some [js ''red'']\<rparr>
        (js ''50, 80,x,-7'')) = [js ''red'']"
    by (simp add: example_segments [simplified] example_numbers [simplified])
  moreover
  from thresholds_per_segment [of "\<lparr>colors = None\<rparr>" "js ''''"]
  have "new_thresholds (handleThresholdChange \<lparr>colors = None\<rparr> (js '''')) = [0]
      \<and> new_colors (handleThresholdChange \<lparr>colors = None\<rparr> (js '''')) = []"
    by (simp add: split_on_def example_numbers [simplified])
  ultimately show ?thesis
    by (simp add: ThresholdsChange.equality)
qed


end
